theory Spec2Isabelle
  imports Complex_Main
begin

section \<open>Data model\<close>

text \<open>
  The notebook \<^verbatim>\<open>Data Cleaning.ipynb\<close> cleans one pandas DataFrame, \<^verbatim>\<open>messy_df\<close>,
  by a fixed sequence of statements. A cell of the frame is \<^verbatim>\<open>np.nan\<close>, a number or a
  Python string. Numbers are float64 (or int64) in pandas; they are modelled by exact
  rationals, which agree with float64 on every value of the notebook's dataset and on every
  integer below \<open>2 ^ 53\<close>. Beyond that the code rounds (float64) or wraps (int64) and the
  model does not: a statement about all values of a column carries the bound within which
  both agree. A string is the sequence of its bytes; a statement that depends on
  Python's reading of characters beyond ASCII assumes an ASCII string.
\<close>

datatype cell = Missing | Num rat | Text string

type_synonym column = "cell list"

text \<open>
  A DataFrame: its index (\<^verbatim>\<open>RangeIndex(nrows)\<close>) and its named columns in order.
\<close>

record table =
  nrows :: nat
  cols :: "(string \<times> column) list"

text \<open>The exceptions the pandas calls of the notebook can raise.\<close>

datatype error = KeyError string | AttributeError | TypeError

text \<open>Every column has as many cells as the index has rows.\<close>

definition uniform :: "table \<Rightarrow> bool" where
  "uniform df = list_all (\<lambda>(k, c). length c = nrows df) (cols df)"

text \<open>\<^verbatim>\<open>df[name]\<close>: the column, or KeyError.\<close>

definition get_col :: "table \<Rightarrow> string \<Rightarrow> error + column" where
  "get_col df name =
     (case map_of (cols df) name of None \<Rightarrow> Inl (KeyError name) | Some c \<Rightarrow> Inr c)"

text \<open>
  \<^verbatim>\<open>df[name] = series\<close> (also the effect of an \<^verbatim>\<open>inplace=True\<close> call on \<^verbatim>\<open>df[name]\<close>):
  the column keeps its position; a new name is appended.
\<close>

definition set_col :: "table \<Rightarrow> string \<Rightarrow> column \<Rightarrow> table" where
  "set_col df name c =
     df\<lparr>cols := (if name \<in> set (map fst (cols df))
                  then map (\<lambda>(k, old). if k = name then (k, c) else (k, old)) (cols df)
                  else cols df @ [(name, c)])\<rparr>"

section \<open>The pandas operations the notebook calls\<close>

subsection \<open>Reading a number from text\<close>

text \<open>
  \<^verbatim>\<open>pd.to_numeric\<close> reads a string with pandas' \<^verbatim>\<open>precise_xstrtod\<close>: leading white space,
  an optional sign, digits with an optional decimal point (at least one digit in all), an
  optional exponent (\<^verbatim>\<open>e\<close> or \<^verbatim>\<open>E\<close>, optional sign, one to seventeen digits), trailing
  white space, and nothing else. The value read is exact here. The code's is the float64
  (or int64) it builds from the first seventeen digits: the two agree, among others, on
  every integer numeral of at most fifteen digits; a numeral too large for float64 is NaN
  in the code. The spellings of infinity, which pandas (\<^verbatim>\<open>floatify\<close>) reads as
  \<^verbatim>\<open>inf\<close> once \<^verbatim>\<open>precise_xstrtod\<close> has rejected them, have no value among the rationals
  and are not read here; \<open>spells_infinity\<close> below says which strings they are.
\<close>

definition isspace_ascii :: "char \<Rightarrow> bool" where
  "isspace_ascii c = (c \<in> set [CHR '' '', CHR 0x09, CHR 0x0A, CHR 0x0B, CHR 0x0C, CHR 0x0D])"

definition isdigit_ascii :: "char \<Rightarrow> bool" where
  "isdigit_ascii c = (c \<in> set ''0123456789'')"

definition digit_val :: "char \<Rightarrow> nat" where
  "digit_val c = of_char c - 48"

definition digits_val :: "string \<Rightarrow> nat" where
  "digits_val ds = foldl (\<lambda>a c. 10 * a + digit_val c) 0 ds"

definition opt_sign :: "string \<Rightarrow> bool \<times> string" where
  "opt_sign s =
     (case s of [] \<Rightarrow> (False, [])
      | c # r \<Rightarrow> if c = CHR ''-'' then (True, r)
                 else if c = CHR ''+'' then (False, r) else (False, s))"

definition exponent :: "string \<Rightarrow> int \<times> string" where
  "exponent s =
     (case s of [] \<Rightarrow> (0, [])
      | c # r \<Rightarrow>
          if c = CHR ''e'' \<or> c = CHR ''E'' then
            (let (neg, r1) = opt_sign r;
                 ds = takeWhile isdigit_ascii (take 17 r1)
             in if ds = [] then (0, s)
                else ((if neg then - int (digits_val ds) else int (digits_val ds)),
                      drop (length ds) r1))
          else (0, s))"

definition scale10 :: "rat \<Rightarrow> int \<Rightarrow> rat" where
  "scale10 m e = (if 0 \<le> e then m * 10 ^ nat e else m / 10 ^ nat (- e))"

definition xstrtod :: "string \<Rightarrow> rat option" where
  "xstrtod s =
     (let (neg, s1) = opt_sign (dropWhile isspace_ascii s);
          ip = takeWhile isdigit_ascii s1;
          s2 = dropWhile isdigit_ascii s1;
          (fp, s3) = (case s2 of [] \<Rightarrow> ([], [])
                      | c # r \<Rightarrow> if c = CHR ''.''
                                 then (takeWhile isdigit_ascii r, dropWhile isdigit_ascii r)
                                 else ([], s2))
      in if ip @ fp = [] then None
         else (let (ex, s4) = exponent s3;
                   m = rat_of_nat (digits_val (ip @ fp))
               in if dropWhile isspace_ascii s4 \<noteq> [] then None
                  else Some (scale10 (if neg then - m else m) (ex - int (length fp)))))"



subsection \<open>Series operations\<close>

text \<open>\<^verbatim>\<open>pd.to_numeric(series, errors='coerce')\<close>: what does not read as a number is NaN.\<close>

fun to_numeric_cell :: "cell \<Rightarrow> cell" where
  "to_numeric_cell Missing = Missing"
| "to_numeric_cell (Num r) = Num r"
| "to_numeric_cell (Text s) = (case xstrtod s of None \<Rightarrow> Missing | Some r \<Rightarrow> Num r)"

definition to_numeric :: "column \<Rightarrow> column" where
  "to_numeric c = map to_numeric_cell c"

text \<open>\<^verbatim>\<open>series.replace(old, new)\<close>: exact matches only.\<close>

definition series_replace :: "cell \<Rightarrow> cell \<Rightarrow> column \<Rightarrow> column" where
  "series_replace old new c = map (\<lambda>x. if x = old then new else x) c"

text \<open>
  \<^verbatim>\<open>series.median()\<close>: NaN is skipped; the median of no value is NaN; an even number
  of values gives the mean of the two middle ones. On a column with text pandas 2 raises
  TypeError, as here; pandas 1.5 first converts the strings that Python reads as numbers.
\<close>

fun is_text :: "cell \<Rightarrow> bool" where
  "is_text (Text s) = True"
| "is_text _ = False"

fun nums :: "column \<Rightarrow> rat list" where
  "nums [] = []"
| "nums (Num r # c) = r # nums c"
| "nums (x # c) = nums c"

definition median_of :: "rat list \<Rightarrow> cell" where
  "median_of vs =
     (let xs = sort vs; n = length xs
      in if n = 0 then Missing
         else if odd n then Num (xs ! (n div 2))
         else Num ((xs ! (n div 2 - 1) + xs ! (n div 2)) / 2))"

definition series_median :: "column \<Rightarrow> error + cell" where
  "series_median c = (if list_ex is_text c then Inl TypeError else Inr (median_of (nums c)))"

text \<open>\<^verbatim>\<open>series.fillna(value)\<close>.\<close>

definition series_fillna :: "cell \<Rightarrow> column \<Rightarrow> column" where
  "series_fillna v c = map (\<lambda>x. if x = Missing then v else x) c"

text \<open>
  \<^verbatim>\<open>series.str.replace('[^\d.]', '', regex=True)\<close>: every character other than a digit
  or a point is deleted from a string; a cell that is not a string gives NaN. The
  \<^verbatim>\<open>.str\<close> accessor raises AttributeError on a column that has rows and no string:
  built from a Python list, such a column has a numeric dtype. A column without rows
  keeps the dtype object of the text column it was cut from. The dtype itself is not part of
  a column here: a column without rows built as float64, on which the code raises, and a
  column of \<^verbatim>\<open>None\<close> kept as object, on which it returns, are not told apart from these.
\<close>

fun str_replace_cell :: "cell \<Rightarrow> cell" where
  "str_replace_cell (Text s) = Text (filter (\<lambda>ch. isdigit_ascii ch \<or> ch = CHR ''.'') s)"
| "str_replace_cell _ = Missing"

definition str_replace :: "column \<Rightarrow> error + column" where
  "str_replace c =
     (if c = [] \<or> list_ex is_text c then Inr (map str_replace_cell c) else Inl AttributeError)"

text \<open>
  \<^verbatim>\<open>series *= 1000\<close>, cell by cell; Python repeats a string. The product is exact here;
  the code's is an int64 product, which wraps, or a float64 product, which rounds: the
  three agree on an integer whose product stays below \<open>2 ^ 53\<close>.
\<close>

fun times_1000 :: "cell \<Rightarrow> cell" where
  "times_1000 Missing = Missing"
| "times_1000 (Num r) = Num (r * 1000)"
| "times_1000 (Text s) = Text (concat (replicate 1000 s))"

section \<open>The statements of the notebook\<close>

text \<open>
  \<^verbatim>\<open>df[col] = pd.to_numeric(df[col].replace(old, new), errors='coerce')\<close>
\<close>

definition coerce_numeric :: "string \<Rightarrow> cell \<Rightarrow> cell \<Rightarrow> table \<Rightarrow> error + table" where
  "coerce_numeric col old new df =
     (case get_col df col of Inl e \<Rightarrow> Inl e
      | Inr c \<Rightarrow> Inr (set_col df col (to_numeric (series_replace old new c))))"

text \<open>\<^verbatim>\<open>df[col].fillna(df[col].median(), inplace=True)\<close>\<close>

definition impute_missing :: "string \<Rightarrow> table \<Rightarrow> error + table" where
  "impute_missing col df =
     (case get_col df col of Inl e \<Rightarrow> Inl e
      | Inr c \<Rightarrow>
          (case series_median c of Inl e \<Rightarrow> Inl e
           | Inr m \<Rightarrow> Inr (set_col df col (series_fillna m c))))"

text \<open>
  \<^verbatim>\<open>df.fillna({col: default, ...}, inplace=True)\<close>: each column named in the dict is
  filled with its default; a name that is no column is skipped.
\<close>

definition fill_categorical :: "(string \<times> cell) list \<Rightarrow> table \<Rightarrow> table" where
  "fill_categorical defaults df =
     df\<lparr>cols := map (\<lambda>(k, c). case map_of defaults k of None \<Rightarrow> (k, c)
                                | Some v \<Rightarrow> (k, series_fillna v c)) (cols df)\<rparr>"

text \<open>
  \<^verbatim>\<open>df[col] = pd.to_numeric(df[col].str.replace('[^\d.]', '', regex=True), errors='coerce')\<close>
  \<^verbatim>\<open>df[col] *= 1000  # Multiply by 1000 to convert 'k' to 000\<close>
\<close>

definition normalize_numeric_text :: "string \<Rightarrow> table \<Rightarrow> error + table" where
  "normalize_numeric_text col df =
     (case get_col df col of Inl e \<Rightarrow> Inl e
      | Inr c \<Rightarrow>
          (case str_replace c of Inl e \<Rightarrow> Inl e
           | Inr s \<Rightarrow>
               (let df1 = set_col df col (to_numeric s)
                in case get_col df1 col of Inl e \<Rightarrow> Inl e
                   | Inr c1 \<Rightarrow> Inr (set_col df1 col (map times_1000 c1)))))"

text \<open>\<^verbatim>\<open>df.drop(name, axis=1, inplace=True)\<close>\<close>

definition drop_column :: "string \<Rightarrow> table \<Rightarrow> error + table" where
  "drop_column name df =
     (if name \<in> set (map fst (cols df))
      then Inr (df\<lparr>cols := filter (\<lambda>(k, c). k \<noteq> name) (cols df)\<rparr>)
      else Inl (KeyError name))"

text \<open>\<^verbatim>\<open>df[col].replace(old, new, inplace=True)\<close>\<close>

definition relabel_category :: "string \<Rightarrow> cell \<Rightarrow> cell \<Rightarrow> table \<Rightarrow> error + table" where
  "relabel_category col old new df =
     (case get_col df col of Inl e \<Rightarrow> Inl e
      | Inr c \<Rightarrow> Inr (set_col df col (series_replace old new c)))"

section \<open>Running the statements in order\<close>

datatype step =
    CoerceNumeric string cell cell
  | ImputeMissing string
  | FillCategorical "(string \<times> cell) list"
  | NormalizeNumericText string
  | DropColumn string
  | RelabelCategory string cell cell

fun exec :: "step \<Rightarrow> table \<Rightarrow> error + table" where
  "exec (CoerceNumeric col old new) df = coerce_numeric col old new df"
| "exec (ImputeMissing col) df = impute_missing col df"
| "exec (FillCategorical defaults) df = Inr (fill_categorical defaults df)"
| "exec (NormalizeNumericText col) df = normalize_numeric_text col df"
| "exec (DropColumn name) df = drop_column name df"
| "exec (RelabelCategory col old new) df = relabel_category col old new df"

text \<open>A statement that raises ends the run; the later statements are not executed.\<close>

fun run :: "step list \<Rightarrow> table \<Rightarrow> error + table" where
  "run [] df = Inr df"
| "run (s # ss) df = (case exec s df of Inl e \<Rightarrow> Inl e | Inr df' \<Rightarrow> run ss df')"

text \<open>The cleaning statements of the notebook, cells In[22] to In[24].\<close>

definition notebook_steps :: "step list" where
  "notebook_steps =
     [CoerceNumeric ''age'' (Text ''thirty-five'') (Num 35),
      ImputeMissing ''age'',
      FillCategorical [(''country'', Text ''Unknown''), (''gender'', Text ''Other'')],
      NormalizeNumericText ''annual_income'',
      DropColumn ''monthly_salary'',
      RelabelCategory ''gender'' (Text ''Other'') (Text ''Non-binary'')]"

definition notebook :: "table \<Rightarrow> error + table" where
  "notebook df = run notebook_steps df"

text \<open>The dataset of the notebook, cell In[21].\<close>

definition messy_df :: table where
  "messy_df = \<lparr>nrows = 7, cols =
     [(''name'', [Text ''Alice'', Text ''Bob'', Text ''Charlie'', Text ''David'',
                  Text ''Emily'', Text ''Frank'', Text ''Grace'']),
      (''age'', [Num 25, Num 30, Missing, Text ''thirty-five'', Num 22, Num 45,
                 Text ''unknown'']),
      (''gender'', [Text ''Female'', Text ''Male'', Text ''Male'', Text ''Male'',
                    Text ''Female'', Text ''Other'', Text ''Male'']),
      (''country'', [Text ''USA'', Text ''Canada'', Text ''Mexico'', Text ''USA'',
                     Text ''Australia'', Text ''Unknown'', Text ''UK'']),
      (''monthly_salary'', [Num 50000, Num 75000, Text ''60k'', Missing, Num 40000,
                            Text ''unknown'', Num 80000]),
      (''annual_income'', [Text ''60,000'', Text ''90,000'', Missing, Text ''100,000'',
                           Text ''40k'', Text ''75k'', Text ''unknown''])]\<rparr>"

text \<open>The cleaned frame the notebook prints after cell In[24].\<close>

definition cleaned_df :: table where
  "cleaned_df = \<lparr>nrows = 7, cols =
     [(''name'', [Text ''Alice'', Text ''Bob'', Text ''Charlie'', Text ''David'',
                  Text ''Emily'', Text ''Frank'', Text ''Grace'']),
      (''age'', [Num 25, Num 30, Num 30, Num 35, Num 22, Num 45, Num 30]),
      (''gender'', [Text ''Female'', Text ''Male'', Text ''Male'', Text ''Male'',
                    Text ''Female'', Text ''Non-binary'', Text ''Male'']),
      (''country'', [Text ''USA'', Text ''Canada'', Text ''Mexico'', Text ''USA'',
                     Text ''Australia'', Text ''Unknown'', Text ''UK'']),
      (''annual_income'', [Num 60000000, Num 90000000, Missing, Num 100000000,
                           Num 40000, Num 75000, Missing])]\<rparr>"

text \<open>The first \<open>n\<close> rows of a frame, for frames of other sizes than seven.\<close>

definition head_rows :: "nat \<Rightarrow> table \<Rightarrow> table" where
  "head_rows n df = \<lparr>nrows = min n (nrows df), cols = map (\<lambda>(k, c). (k, take n c)) (cols df)\<rparr>"

section \<open>Decimal numerals\<close>



section \<open>Frames and columns\<close>

lemmas parse_defs = xstrtod_def opt_sign_def isspace_ascii_def isdigit_ascii_def digits_val_def
  digit_val_def exponent_def scale10_def

lemmas step_defs = coerce_numeric_def impute_missing_def fill_categorical_def
  normalize_numeric_text_def drop_column_def relabel_category_def get_col_def set_col_def
  to_numeric_def series_replace_def series_median_def median_of_def series_fillna_def
  str_replace_def

lemmas frame_defs = messy_df_def cleaned_df_def head_rows_def notebook_steps_def

lemma get_col_set_col_same: "get_col (set_col df a c) a = Inr c"
proof -
  have "map_of (map (\<lambda>(k, old). if k = a then (k, c) else (k, old)) xs) a = Some c"
    if "a \<in> set (map fst xs)" for xs :: "(string \<times> column) list"
    using that by (induction xs) auto
  moreover have "map_of (xs @ [(a, c)]) a = Some c"
    if "a \<notin> set (map fst xs)" for xs :: "(string \<times> column) list"
    using that by (induction xs) auto
  ultimately show ?thesis
    by (simp add: get_col_def set_col_def)
qed

lemma get_col_set_col_other: "a \<noteq> b \<Longrightarrow> get_col (set_col df a c) b = get_col df b"
proof -
  assume ab: "a \<noteq> b"
  have "map_of (map (\<lambda>(k, old). if k = a then (k, c) else (k, old)) xs) b = map_of xs b"
    for xs :: "(string \<times> column) list"
    using ab by (induction xs) auto
  moreover have "map_of (xs @ [(a, c)]) b = map_of xs b"
    for xs :: "(string \<times> column) list"
    using ab by (induction xs) auto
  ultimately show ?thesis
    by (simp add: get_col_def set_col_def)
qed

lemma nrows_set_col: "nrows (set_col df a c) = nrows df"
  by (simp add: set_col_def)

lemma get_col_length: "uniform df \<Longrightarrow> get_col df a = Inr c \<Longrightarrow> length c = nrows df"
  by (auto simp: uniform_def get_col_def list_all_iff split: option.splits dest: map_of_SomeD)

lemma uniform_set_col: "uniform df \<Longrightarrow> length c = nrows df \<Longrightarrow> uniform (set_col df a c)"
  by (auto simp: uniform_def set_col_def list_all_iff split: if_splits)

lemma str_replace_length: "str_replace c = Inr s \<Longrightarrow> length s = length c"
  by (auto simp: str_replace_def split: if_splits)

lemma set_col_same:
  assumes "get_col df col = Inr c" and "distinct (map fst (cols df))"
  shows "set_col df col c = df"
proof -
  from assms(1) have m: "map_of (cols df) col = Some c"
    by (simp add: get_col_def split: option.splits)
  then have mem: "col \<in> set (map fst (cols df))"
    by (force dest: map_of_SomeD)
  have "(case x of (k, old) \<Rightarrow> if k = col then (k, c) else (k, old)) = x"
    if "x \<in> set (cols df)" for x
  proof (cases x)
    case (Pair k old)
    with that assms(2) have "map_of (cols df) k = Some old"
      by simp
    with m Pair show ?thesis
      by auto
  qed
  then have "map (\<lambda>(k, old). if k = col then (k, c) else (k, old)) (cols df) = cols df"
    by (simp add: map_idI)
  with mem show ?thesis
    by (simp add: set_col_def)
qed

lemma series_fillna_idem: "series_fillna v (series_fillna v c) = series_fillna v c"
  by (simp add: series_fillna_def)

lemma get_col_drop_other:
  "drop_column name df = Inr df' \<Longrightarrow> k \<noteq> name \<Longrightarrow> get_col df' k = get_col df k"
proof -
  assume d: "drop_column name df = Inr df'" and k: "k \<noteq> name"
  have "map_of (filter (\<lambda>(a, c). a \<noteq> name) xs) k = map_of xs k"
    for xs :: "(string \<times> column) list"
    using k by (induction xs) auto
  with d show ?thesis
    by (auto simp: drop_column_def get_col_def split: if_splits)
qed

lemma get_col_fill_categorical:
  "get_col (fill_categorical d df) k
     = (case get_col df k of Inl e \<Rightarrow> Inl e
        | Inr c \<Rightarrow> Inr (case map_of d k of None \<Rightarrow> c | Some v \<Rightarrow> series_fillna v c))"
proof -
  have "map_of (map (\<lambda>(a, c). case map_of d a of None \<Rightarrow> (a, c)
                               | Some v \<Rightarrow> (a, series_fillna v c)) xs) k
      = map_option (\<lambda>c. case map_of d k of None \<Rightarrow> c | Some v \<Rightarrow> series_fillna v c)
          (map_of xs k)"
    for xs :: "(string \<times> column) list"
    by (induction xs) (auto split: option.splits)
  then show ?thesis
    by (simp add: get_col_def fill_categorical_def split: option.splits)
qed

lemma nums_all_missing: "list_all (\<lambda>x. x = Missing) c \<Longrightarrow> nums c = []"
  by (induction c) auto

section \<open>Statements and runs\<close>

lemma uniform_fill_categorical: "uniform df \<Longrightarrow> uniform (fill_categorical defaults df)"
  by (fastforce simp: fill_categorical_def uniform_def list_all_iff series_fillna_def
      split: option.splits)

lemma exec_uniform:
  assumes "uniform df" and "exec s df = Inr df'"
  shows "nrows df' = nrows df \<and> uniform df'"
proof (cases s)
  case (CoerceNumeric col old new)
  with assms show ?thesis
    by (auto simp: coerce_numeric_def nrows_set_col to_numeric_def series_replace_def
        get_col_length split: sum.splits intro!: uniform_set_col)
next
  case (ImputeMissing col)
  with assms show ?thesis
    by (auto simp: impute_missing_def nrows_set_col series_fillna_def
        get_col_length split: sum.splits intro!: uniform_set_col)
next
  case (FillCategorical defaults)
  with assms have "df' = fill_categorical defaults df"
    by simp
  with assms(1) show ?thesis
    by (simp add: uniform_fill_categorical) (simp add: fill_categorical_def)
next
  case (NormalizeNumericText col)
  with assms show ?thesis
    by (auto simp: normalize_numeric_text_def nrows_set_col to_numeric_def Let_def
        get_col_set_col_same get_col_length str_replace_length
        split: sum.splits intro!: uniform_set_col)
next
  case (DropColumn name)
  with assms show ?thesis
    by (auto simp: drop_column_def uniform_def list_all_iff split: if_splits)
next
  case (RelabelCategory col old new)
  with assms show ?thesis
    by (auto simp: relabel_category_def nrows_set_col series_replace_def
        get_col_length split: sum.splits intro!: uniform_set_col)
qed

lemma get_col_exec_other:
  assumes "exec s df = Inr df'"
    and "case s of CoerceNumeric col old new \<Rightarrow> col \<noteq> k | ImputeMissing col \<Rightarrow> col \<noteq> k
         | FillCategorical d \<Rightarrow> map_of d k = None | NormalizeNumericText col \<Rightarrow> col \<noteq> k
         | DropColumn name \<Rightarrow> name \<noteq> k | RelabelCategory col old new \<Rightarrow> col \<noteq> k"
  shows "get_col df' k = get_col df k"
proof (cases s)
  case (CoerceNumeric col old new)
  with assms show ?thesis
    by (auto simp: coerce_numeric_def get_col_set_col_other split: sum.splits)
next
  case (ImputeMissing col)
  with assms show ?thesis
    by (auto simp: impute_missing_def get_col_set_col_other split: sum.splits)
next
  case (FillCategorical d)
  with assms show ?thesis
    by (auto simp: get_col_fill_categorical split: sum.splits)
next
  case (NormalizeNumericText col)
  with assms show ?thesis
    by (auto simp: normalize_numeric_text_def Let_def get_col_set_col_other split: sum.splits)
next
  case (DropColumn name)
  with assms show ?thesis
    by (auto simp: get_col_drop_other)
next
  case (RelabelCategory col old new)
  with assms show ?thesis
    by (auto simp: relabel_category_def get_col_set_col_other split: sum.splits)
qed

section \<open>Reading decimal numerals\<close>



















section \<open>The notebook on its dataset\<close>

text \<open>The model reproduces the frame the notebook prints, on seven rows, one row and none.\<close>

lemma notebook_messy_df: "run notebook_steps messy_df = Inr cleaned_df"
  by (simp add: notebook_steps_def messy_df_def cleaned_df_def step_defs parse_defs)

lemma run_notebook_one_row:
  "run notebook_steps (head_rows 1 messy_df) = Inr (head_rows 1 cleaned_df)"
  by (simp add: frame_defs step_defs parse_defs)

lemma run_notebook_no_row:
  "run notebook_steps (head_rows 0 messy_df) = Inr (head_rows 0 cleaned_df)"
  by (simp add: frame_defs step_defs parse_defs)

lemma run_coerce_messy_df:
  "run [CoerceNumeric ''age'' (Text ''thirty-five'') (Num 35)] messy_df
     = Inr (set_col messy_df ''age'' [Num 25, Num 30, Missing, Num 35, Num 22, Num 45, Missing])"
  by (simp add: frame_defs step_defs parse_defs)

section \<open>The claims\<close>

text \<open>
  C1. The claim: the normalisation of a text column of amounts strips thousands separators,
  multiplies by a suffix's factor only the values that bear the suffix, and maps unrecognised
  text to missing, so that \<open>["60,000", "40k", "unknown"]\<close> gives \<open>[60000, 40000, missing]\<close>.
  The statement of the notebook, whose comment reads ``Multiply by 1000 to convert 'k' to
  000'', multiplies every parsed value: on that column it gives
  \<open>[60000000, 40000, missing]\<close>.
\<close>

theorem normalize_numeric_text_multiplies_every_value:
  "normalize_numeric_text ''annual_income''
     \<lparr>nrows = 3, cols = [(''annual_income'', [Text ''60,000'', Text ''40k'', Text ''unknown''])]\<rparr>
   = Inr \<lparr>nrows = 3, cols = [(''annual_income'', [Num 60000000, Num 40000, Missing])]\<rparr>"
  by (simp add: step_defs parse_defs)

text \<open>
  C2. The claim: imputing a column whose values are all missing fails with an error naming
  the column. As amended: the median of no value is NaN, filling with NaN changes nothing,
  and the statement returns the frame as it was, without an error.
\<close>

theorem impute_missing_all_missing:
  assumes "get_col df col = Inr c"
    and "list_all (\<lambda>x. x = Missing) c"
    and "distinct (map fst (cols df))"
  shows "impute_missing col df = Inr df"
proof -
  from assms(2) have "\<not> list_ex is_text c"
    by (auto simp: list_all_iff list_ex_iff)
  with assms(2) have "series_median c = Inr Missing"
    by (simp add: series_median_def median_of_def nums_all_missing)
  moreover have "series_fillna Missing c = c"
    by (simp add: series_fillna_def map_idI)
  ultimately show ?thesis
    using assms(1,3) by (simp add: impute_missing_def set_col_same)
qed

text \<open>The amended statement at a column of two missing ages.\<close>

theorem impute_missing_all_missing_witness:
  "get_col \<lparr>nrows = 2, cols = [(''age'', [Missing, Missing])]\<rparr> ''age'' = Inr [Missing, Missing]
   \<and> list_all (\<lambda>x. x = Missing) [Missing, Missing]
   \<and> distinct (map fst (cols \<lparr>nrows = 2, cols = [(''age'', [Missing, Missing])]\<rparr>))
   \<and> impute_missing ''age'' \<lparr>nrows = 2, cols = [(''age'', [Missing, Missing])]\<rparr>
       = Inr \<lparr>nrows = 2, cols = [(''age'', [Missing, Missing])]\<rparr>"
  using impute_missing_all_missing
    [of "\<lparr>nrows = 2, cols = [(''age'', [Missing, Missing])]\<rparr>" "''age''" "[Missing, Missing]"]
  by (simp add: get_col_def)

text \<open>The claim fails there: the statement returns a frame, not an error.\<close>

theorem impute_missing_all_missing_returns:
  "list_all (\<lambda>x. x = Missing) [Missing, Missing]
   \<and> impute_missing ''age'' \<lparr>nrows = 2, cols = [(''age'', [Missing, Missing])]\<rparr>
       = Inr \<lparr>nrows = 2, cols = [(''age'', [Missing, Missing])]\<rparr>
   \<and> \<not> isl (impute_missing ''age'' \<lparr>nrows = 2, cols = [(''age'', [Missing, Missing])]\<rparr>)"
  by (simp add: step_defs)

text \<open>
  C3. Every cleaning statement, and every run of statements (a single statement is the run
  \<open>[s]\<close>), that returns a frame returns one with the number of rows of its input, all of
  whose columns have that many cells.
\<close>

theorem row_count_invariant:
  assumes "uniform df" and "run ss df = Inr df'"
  shows "nrows df' = nrows df \<and> uniform df'"
  using assms
proof (induction ss arbitrary: df)
  case Nil
  then show ?case
    by simp
next
  case (Cons s ss)
  from Cons.prems(2) obtain mid where m: "exec s df = Inr mid" and r: "run ss mid = Inr df'"
    by (auto split: sum.splits)
  from exec_uniform [OF Cons.prems(1) m] have "nrows mid = nrows df" and "uniform mid"
    by simp_all
  with Cons.IH [OF _ r] show ?case
    by simp
qed

text \<open>
  The dataset of seven rows, its first row alone, and no row: one statement and the whole
  notebook.
\<close>

theorem row_count_invariant_witness:
  "uniform messy_df \<and> nrows messy_df = 7
   \<and> run [CoerceNumeric ''age'' (Text ''thirty-five'') (Num 35)] messy_df
       = Inr (set_col messy_df ''age'' [Num 25, Num 30, Missing, Num 35, Num 22, Num 45, Missing])
   \<and> nrows (set_col messy_df ''age'' [Num 25, Num 30, Missing, Num 35, Num 22, Num 45, Missing]) = 7
   \<and> uniform (set_col messy_df ''age'' [Num 25, Num 30, Missing, Num 35, Num 22, Num 45, Missing])
   \<and> run notebook_steps messy_df = Inr cleaned_df
   \<and> nrows cleaned_df = 7 \<and> uniform cleaned_df
   \<and> uniform (head_rows 1 messy_df) \<and> nrows (head_rows 1 messy_df) = 1
   \<and> run notebook_steps (head_rows 1 messy_df) = Inr (head_rows 1 cleaned_df)
   \<and> nrows (head_rows 1 cleaned_df) = 1 \<and> uniform (head_rows 1 cleaned_df)
   \<and> uniform (head_rows 0 messy_df) \<and> nrows (head_rows 0 messy_df) = 0
   \<and> run notebook_steps (head_rows 0 messy_df) = Inr (head_rows 0 cleaned_df)
   \<and> nrows (head_rows 0 cleaned_df) = 0 \<and> uniform (head_rows 0 cleaned_df)"
proof -
  have u7: "uniform messy_df" and n7: "nrows messy_df = 7"
    by (simp_all add: uniform_def messy_df_def)
  have u1: "uniform (head_rows 1 messy_df)" and n1: "nrows (head_rows 1 messy_df) = 1"
    by (simp_all add: uniform_def messy_df_def head_rows_def)
  have u0: "uniform (head_rows 0 messy_df)" and n0: "nrows (head_rows 0 messy_df) = 0"
    by (simp_all add: uniform_def messy_df_def head_rows_def)
  have a: "nrows (set_col messy_df ''age'' [Num 25, Num 30, Missing, Num 35, Num 22, Num 45, Missing]) = 7
      \<and> uniform (set_col messy_df ''age'' [Num 25, Num 30, Missing, Num 35, Num 22, Num 45, Missing])"
    using row_count_invariant [OF u7 run_coerce_messy_df] n7 by simp
  have b: "nrows cleaned_df = 7 \<and> uniform cleaned_df"
    using row_count_invariant [OF u7 notebook_messy_df] n7 by simp
  have c: "nrows (head_rows 1 cleaned_df) = 1 \<and> uniform (head_rows 1 cleaned_df)"
    using row_count_invariant [OF u1 run_notebook_one_row] n1 by simp
  have d: "nrows (head_rows 0 cleaned_df) = 0 \<and> uniform (head_rows 0 cleaned_df)"
    using row_count_invariant [OF u0 run_notebook_no_row] n0 by simp
  from a b c d u7 u1 u0 n7 n1 n0 run_coerce_messy_df notebook_messy_df run_notebook_one_row
    run_notebook_no_row
  show ?thesis
    by blast
qed






text \<open>
  C6. Dropping a column removes the columns of that name and nothing else: the other
  columns keep their names, their cells and their order, the rows stay, and where names are
  distinct exactly one column goes. Dropping the same name from the result raises KeyError
  for that name, which is how pandas reports a column that is not found.
\<close>

theorem drop_column_frame:
  assumes "drop_column name df = Inr df'"
  shows "cols df' = filter (\<lambda>(k, c). k \<noteq> name) (cols df)
       \<and> nrows df' = nrows df
       \<and> (\<forall>k. k \<noteq> name \<longrightarrow> get_col df' k = get_col df k)
       \<and> (distinct (map fst (cols df)) \<longrightarrow> length (cols df) = Suc (length (cols df')))
       \<and> drop_column name df' = Inl (KeyError name)"
proof -
  from assms have mem: "name \<in> set (map fst (cols df))"
    and eq: "df' = df\<lparr>cols := filter (\<lambda>(k, c). k \<noteq> name) (cols df)\<rparr>"
    by (auto simp: drop_column_def split: if_splits)
  have other: "map_of (filter (\<lambda>(k, c). k \<noteq> name) xs) k = map_of xs k"
    if "k \<noteq> name" for k and xs :: "(string \<times> column) list"
    using that by (induction xs) auto
  have one: "length xs = Suc (length (filter (\<lambda>(k, c). k \<noteq> name) xs))"
    if "distinct (map fst xs)" "name \<in> set (map fst xs)" for xs :: "(string \<times> column) list"
    using that
  proof (induction xs)
    case Nil
    then show ?case by simp
  next
    case (Cons x xs)
    show ?case
    proof (cases "fst x = name")
      case True
      with Cons.prems have "name \<notin> set (map fst xs)" by auto
      then have "filter (\<lambda>(k, c). k \<noteq> name) xs = xs"
        by (induction xs) auto
      with True show ?thesis by (cases x) simp
    next
      case False
      with Cons show ?thesis by (cases x) auto
    qed
  qed
  from eq mem show ?thesis
    by (auto simp: get_col_def other one drop_column_def)
qed

text \<open>Dropping \<open>monthly_salary\<close> from the dataset, as the notebook does.\<close>

theorem drop_column_frame_witness:
  "drop_column ''monthly_salary'' messy_df
     = Inr (messy_df\<lparr>cols := filter (\<lambda>(k, c). k \<noteq> ''monthly_salary'') (cols messy_df)\<rparr>)
   \<and> distinct (map fst (cols messy_df))
   \<and> length (cols messy_df)
       = Suc (length (cols (messy_df\<lparr>cols := filter (\<lambda>(k, c). k \<noteq> ''monthly_salary'') (cols messy_df)\<rparr>)))
   \<and> ''age'' \<noteq> ''monthly_salary''
   \<and> get_col (messy_df\<lparr>cols := filter (\<lambda>(k, c). k \<noteq> ''monthly_salary'') (cols messy_df)\<rparr>) ''age''
       = get_col messy_df ''age''
   \<and> drop_column ''monthly_salary''
        (messy_df\<lparr>cols := filter (\<lambda>(k, c). k \<noteq> ''monthly_salary'') (cols messy_df)\<rparr>)
       = Inl (KeyError ''monthly_salary'')"
proof -
  have d: "drop_column ''monthly_salary'' messy_df
     = Inr (messy_df\<lparr>cols := filter (\<lambda>(k, c). k \<noteq> ''monthly_salary'') (cols messy_df)\<rparr>)"
    by (simp add: drop_column_def messy_df_def)
  have "distinct (map fst (cols messy_df))"
    by (simp add: messy_df_def)
  with drop_column_frame [OF d] d show ?thesis
    by simp
qed

text \<open>
  C7. Filling missing cells with defaults is idempotent: a second fill returns the frame of
  the first. After \<open>fill(col, v)\<close> the column \<open>col\<close> has no missing cell left.
\<close>

theorem fill_categorical_idempotent:
  "fill_categorical d (fill_categorical d df) = fill_categorical d df
   \<and> (get_col (fill_categorical [(col, Text v)] df) col = Inr c \<longrightarrow> Missing \<notin> set c)"
proof -
  let ?f = "\<lambda>(k, c). case map_of d k of None \<Rightarrow> (k, c) | Some v \<Rightarrow> (k, series_fillna v c)"
  have "?f (?f x) = ?f x" for x :: "string \<times> column"
    by (cases x) (simp add: series_fillna_idem split: option.splits)
  then have "map ?f (map ?f xs) = map ?f xs" for xs
    by (induction xs) simp_all
  then have "fill_categorical d (fill_categorical d df) = fill_categorical d df"
    by (simp add: fill_categorical_def)
  moreover have "Missing \<notin> set c" if "get_col (fill_categorical [(col, Text v)] df) col = Inr c"
    using that by (auto simp: get_col_fill_categorical series_fillna_def split: sum.splits)
  ultimately show ?thesis
    by blast
qed

text \<open>A country column with one missing cell, filled with \<open>Unknown\<close>.\<close>

theorem fill_categorical_idempotent_witness:
  "get_col (fill_categorical [(''country'', Text ''Unknown'')]
       \<lparr>nrows = 2, cols = [(''country'', [Text ''USA'', Missing])]\<rparr>) ''country''
     = Inr [Text ''USA'', Text ''Unknown'']
   \<and> Missing \<notin> set [Text ''USA'', Text ''Unknown'']
   \<and> fill_categorical [(''country'', Text ''Unknown'')]
        (fill_categorical [(''country'', Text ''Unknown'')]
           \<lparr>nrows = 2, cols = [(''country'', [Text ''USA'', Missing])]\<rparr>)
       = \<lparr>nrows = 2, cols = [(''country'', [Text ''USA'', Text ''Unknown''])]\<rparr>"
  using fill_categorical_idempotent
    [of "[(''country'', Text ''Unknown'')]"
        "\<lparr>nrows = 2, cols = [(''country'', [Text ''USA'', Missing])]\<rparr>" "''country''"
        "''Unknown''" "[Text ''USA'', Text ''Unknown'']"]
  by (simp add: get_col_def fill_categorical_def series_fillna_def)

text \<open>
  C8. Runs compose: a run of \<open>xs @ ys\<close> is the run of \<open>xs\<close> followed, when it returns a
  frame, by the run of \<open>ys\<close> on that frame. On the dataset of the notebook, running the
  coercion of \<open>age\<close> and then its imputation in one run gives the frame that two runs give,
  the second started on the frame the first returns: the age column
  \<open>[25, 30, 30, 35, 22, 45, 30]\<close>. A run returns a frame and nothing else; there is no
  report to compare.
\<close>

theorem run_composes:
  "run (xs @ ys) df = (case run xs df of Inl e \<Rightarrow> Inl e | Inr mid \<Rightarrow> run ys mid)
   \<and> run [CoerceNumeric ''age'' (Text ''thirty-five'') (Num 35), ImputeMissing ''age''] messy_df
     = (case run [CoerceNumeric ''age'' (Text ''thirty-five'') (Num 35)] messy_df of
          Inl e \<Rightarrow> Inl e
        | Inr mid \<Rightarrow> run [ImputeMissing ''age''] mid)
   \<and> run [CoerceNumeric ''age'' (Text ''thirty-five'') (Num 35)] messy_df
     = Inr (set_col messy_df ''age'' [Num 25, Num 30, Missing, Num 35, Num 22, Num 45, Missing])
   \<and> run [CoerceNumeric ''age'' (Text ''thirty-five'') (Num 35), ImputeMissing ''age''] messy_df
     = Inr (set_col messy_df ''age'' [Num 25, Num 30, Num 30, Num 35, Num 22, Num 45, Num 30])"
proof -
  have app: "run (as @ bs) t = (case run as t of Inl e \<Rightarrow> Inl e | Inr mid \<Rightarrow> run bs mid)"
    for as bs t
    by (induction as arbitrary: t) (auto split: sum.splits)
  have "run ([CoerceNumeric ''age'' (Text ''thirty-five'') (Num 35)] @ [ImputeMissing ''age''])
        messy_df
     = (case run [CoerceNumeric ''age'' (Text ''thirty-five'') (Num 35)] messy_df of
          Inl e \<Rightarrow> Inl e
        | Inr mid \<Rightarrow> run [ImputeMissing ''age''] mid)"
    by (rule app)
  moreover have "run [CoerceNumeric ''age'' (Text ''thirty-five'') (Num 35), ImputeMissing ''age'']
        messy_df
     = Inr (set_col messy_df ''age'' [Num 25, Num 30, Num 30, Num 35, Num 22, Num 45, Num 30])"
    by (simp add: messy_df_def step_defs parse_defs)
  ultimately show ?thesis
    using app [of xs ys df] run_coerce_messy_df by simp
qed




text \<open>
  C10. The notebook fills a missing gender with \<open>Other\<close> before it relabels \<open>Other\<close> as
  \<open>Non-binary\<close>: whenever it returns a frame, a gender cell that was missing in the input
  and one that was \<open>Other\<close> both hold \<open>Non-binary\<close>.
\<close>

theorem missing_gender_ends_non_binary:
  assumes "notebook df = Inr df'"
    and "get_col df ''gender'' = Inr g"
    and "i < length g"
    and "g ! i = Missing \<or> g ! i = Text ''Other''"
  shows "\<exists>g'. get_col df' ''gender'' = Inr g' \<and> length g' = length g
            \<and> g' ! i = Text ''Non-binary''"
proof -
  from assms(1) obtain d1 d2 d3 d4 d5 where
    s1: "exec (CoerceNumeric ''age'' (Text ''thirty-five'') (Num 35)) df = Inr d1" and
    s2: "exec (ImputeMissing ''age'') d1 = Inr d2" and
    s3: "d3 = fill_categorical [(''country'', Text ''Unknown''), (''gender'', Text ''Other'')] d2" and
    s4: "exec (NormalizeNumericText ''annual_income'') d3 = Inr d4" and
    s5: "exec (DropColumn ''monthly_salary'') d4 = Inr d5" and
    s6: "relabel_category ''gender'' (Text ''Other'') (Text ''Non-binary'') d5 = Inr df'"
    by (auto simp: notebook_def notebook_steps_def split: sum.splits)
  have g1: "get_col d1 ''gender'' = Inr g"
    using get_col_exec_other [OF s1, of "''gender''"] assms(2) by simp
  have g2: "get_col d2 ''gender'' = Inr g"
    using get_col_exec_other [OF s2, of "''gender''"] g1 by simp
  have g3: "get_col d3 ''gender'' = Inr (series_fillna (Text ''Other'') g)"
    using g2 by (simp add: s3 get_col_fill_categorical)
  have g4: "get_col d4 ''gender'' = Inr (series_fillna (Text ''Other'') g)"
    using get_col_exec_other [OF s4, of "''gender''"] g3 by simp
  have g5: "get_col d5 ''gender'' = Inr (series_fillna (Text ''Other'') g)"
    using get_col_exec_other [OF s5, of "''gender''"] g4 by simp
  have g6: "get_col df' ''gender''
      = Inr (series_replace (Text ''Other'') (Text ''Non-binary'')
               (series_fillna (Text ''Other'') g))"
    using s6 g5 by (auto simp: relabel_category_def get_col_set_col_same)
  from assms(3,4) show ?thesis
    by (auto simp: g6 series_replace_def series_fillna_def)
qed

text \<open>The dataset with a missing gender in row 0 and \<open>Other\<close> in row 1.\<close>

theorem missing_gender_ends_non_binary_witness:
  "notebook (set_col messy_df ''gender'' [Missing, Text ''Other'', Text ''Male'', Text ''Male'',
       Text ''Female'', Text ''Other'', Text ''Male''])
     = Inr (set_col cleaned_df ''gender'' [Text ''Non-binary'', Text ''Non-binary'', Text ''Male'',
         Text ''Male'', Text ''Female'', Text ''Non-binary'', Text ''Male''])
   \<and> get_col (set_col messy_df ''gender'' [Missing, Text ''Other'', Text ''Male'', Text ''Male'',
         Text ''Female'', Text ''Other'', Text ''Male'']) ''gender''
       = Inr [Missing, Text ''Other'', Text ''Male'', Text ''Male'', Text ''Female'',
              Text ''Other'', Text ''Male'']
   \<and> (\<exists>g'. get_col (set_col cleaned_df ''gender'' [Text ''Non-binary'', Text ''Non-binary'',
           Text ''Male'', Text ''Male'', Text ''Female'', Text ''Non-binary'', Text ''Male''])
           ''gender'' = Inr g'
         \<and> g' ! 0 = Text ''Non-binary'' \<and> g' ! 1 = Text ''Non-binary'')"
proof -
  let ?g = "[Missing, Text ''Other'', Text ''Male'', Text ''Male'', Text ''Female'',
             Text ''Other'', Text ''Male'']"
  let ?in = "set_col messy_df ''gender'' ?g"
  let ?out = "set_col cleaned_df ''gender'' [Text ''Non-binary'', Text ''Non-binary'',
           Text ''Male'', Text ''Male'', Text ''Female'', Text ''Non-binary'', Text ''Male'']"
  have r: "notebook ?in = Inr ?out"
    by (simp add: notebook_def frame_defs step_defs parse_defs)
  have g: "get_col ?in ''gender'' = Inr ?g"
    by (rule get_col_set_col_same)
  have "\<exists>g'. get_col ?out ''gender'' = Inr g' \<and> length g' = length ?g
          \<and> g' ! 0 = Text ''Non-binary''"
    by (rule missing_gender_ends_non_binary [OF r g]) simp_all
  moreover have "\<exists>g'. get_col ?out ''gender'' = Inr g' \<and> length g' = length ?g
          \<and> g' ! 1 = Text ''Non-binary''"
    by (rule missing_gender_ends_non_binary [OF r g]) simp_all
  ultimately show ?thesis
    using r g by auto
qed

end
